theory Spec2Isabelle
  imports Main "HOL-Library.Char_ord" "HOL-Library.List_Lexorder"
begin

section \<open>Python values and errors\<close>

text \<open>
  The cells of a table and the decoded JSON-like literals are Python objects. The
  fragment modelled here has \<open>None\<close>, the missing-value marker \<open>nan\<close> that pandas
  writes into a table, integers, strings, lists and dicts. A dict keeps its insertion
  order, so it is an association list. Booleans and other floats are left out: on the
  hashable values that remain (\<open>None\<close>, \<open>nan\<close>, integers, strings) Python's
  equality of dict keys is HOL's equality.
\<close>

datatype pyval =
    PNone
  | PNaN
  | PInt int
  | PStr string
  | PList "pyval list"
  | PDict "(pyval \<times> pyval) list"

type_synonym pydict = "(pyval \<times> pyval) list"

text \<open>
  Exceptions are values. \<open>AttributeError\<close> carries its message, so that the exception
  the reducer raises on purpose is told apart from the one Python raises when an
  attribute is missing. \<open>NotModelled\<close> marks a call into pandas whose outcome depends
  on details of the library this development does not describe; no theorem below
  reads anything from such a call.
\<close>

datatype pyerr =
    AttributeError string
  | KeyError
  | IndexError
  | TypeError
  | ValueError
  | SyntaxError
  | NotModelled

fun is_dict :: "pyval \<Rightarrow> bool" where
  "is_dict (PDict kvs) = True"
| "is_dict v = False"

fun is_list :: "pyval \<Rightarrow> bool" where
  "is_list (PList xs) = True"
| "is_list v = False"

text \<open>Lists and dicts are unhashable: they cannot be keys of a dict.\<close>

fun hashable :: "pyval \<Rightarrow> bool" where
  "hashable (PList xs) = False"
| "hashable (PDict kvs) = False"
| "hashable v = True"

text \<open>\<open>d.get(k)\<close>: the value stored under \<open>k\<close>, \<open>None\<close> when there is none.\<close>

definition dict_get :: "pydict \<Rightarrow> pyval \<Rightarrow> pyval" where
  "dict_get d k = (case map_of d k of None \<Rightarrow> PNone | Some v \<Rightarrow> v)"

text \<open>
  \<open>d[k] = v\<close> on the entries of a dict: a key already present keeps its place and gets
  the new value, a new key goes last.
\<close>

primrec dict_store :: "pyval \<Rightarrow> pyval \<Rightarrow> pydict \<Rightarrow> pydict" where
  "dict_store k v [] = [(k, v)]"
| "dict_store k v (p # ps) = (if fst p = k then (k, v) # ps else p # dict_store k v ps)"

text \<open>\<open>d[k] = v\<close> as a statement: an unhashable key raises \<open>TypeError\<close>.\<close>

definition dict_setitem :: "pydict \<Rightarrow> pyval \<Rightarrow> pyval \<Rightarrow> pyerr + pydict" where
  "dict_setitem d k v = (if hashable k then Inr (dict_store k v d) else Inl TypeError)"

text \<open>
  \<open>functools.reduce(function, iterable, initializer)\<close>: a left fold; an exception of
  the function ends it.
\<close>

fun py_reduce :: "('a \<Rightarrow> 'b \<Rightarrow> pyerr + 'a) \<Rightarrow> 'b list \<Rightarrow> 'a \<Rightarrow> pyerr + 'a" where
  "py_reduce f [] acc = Inr acc"
| "py_reduce f (x # xs) acc =
     (case f acc x of Inl e \<Rightarrow> Inl e | Inr acc' \<Rightarrow> py_reduce f xs acc')"

section \<open>The array-to-map reducer\<close>

text \<open>
  \<^verbatim>\<open>
  def array_to_dict_reducer(key_prop, value_prop):
      def reducer(accumulator, current_value):
          if type(current_value) is not dict:
              raise AttributeError("Value being reduced must be a dictionary")
          key = current_value.get(key_prop)
          current_value = current_value.get(value_prop)
          accumulator[key] = current_value
          return accumulator
      return reducer
  \<close>
  The property names are strings. The accumulator is the dict the fold threads
  through; the function returns the updated one.
\<close>

definition must_be_dictionary :: pyerr where
  "must_be_dictionary = AttributeError ''Value being reduced must be a dictionary''"

fun array_to_dict_reducer :: "string \<Rightarrow> string \<Rightarrow> pydict \<Rightarrow> pyval \<Rightarrow> pyerr + pydict" where
  "array_to_dict_reducer key_prop value_prop accumulator (PDict current_value) =
     dict_setitem accumulator
       (dict_get current_value (PStr key_prop)) (dict_get current_value (PStr value_prop))"
| "array_to_dict_reducer key_prop value_prop accumulator current_value =
     Inl must_be_dictionary"

section \<open>The per-cell extraction rule of the tuple expander\<close>

text \<open>
  \<^verbatim>\<open>
  def get_value(y, prop):
      value = y
      if type(value) is str:
          value = ast.literal_eval(y)
      if type(value) is dict:
          return value.get(prop)
      if type(value) is list:
          return value[0].get(prop)
      else:
          return None
  \<close>
  \<open>ast.literal_eval\<close> belongs to Python's library, not to this repository: it is the
  parameter \<open>literal_eval\<close>, a function from the text to the decoded value or to the
  exception the decoder raises. Nothing in \<open>get_value\<close> catches an exception. A value
  that is no dict has no attribute \<open>get\<close>.
\<close>

definition no_attribute_get :: pyerr where
  "no_attribute_get = AttributeError ''object has no attribute get''"

definition decode_str :: "(string \<Rightarrow> pyerr + pyval) \<Rightarrow> pyval \<Rightarrow> pyerr + pyval" where
  "decode_str literal_eval y = (case y of PStr s \<Rightarrow> literal_eval s | _ \<Rightarrow> Inr y)"

definition get_value :: "(string \<Rightarrow> pyerr + pyval) \<Rightarrow> pyval \<Rightarrow> string \<Rightarrow> pyerr + pyval" where
  "get_value literal_eval y prop =
     (case decode_str literal_eval y of
        Inl e \<Rightarrow> Inl e
      | Inr value \<Rightarrow>
          (case value of
             PDict d \<Rightarrow> Inr (dict_get d (PStr prop))
           | PList xs \<Rightarrow>
               (case xs of
                  [] \<Rightarrow> Inl IndexError
                | PDict d # rest \<Rightarrow> Inr (dict_get d (PStr prop))
                | other # rest \<Rightarrow> Inl no_attribute_get)
           | _ \<Rightarrow> Inr PNone))"

section \<open>Strings and paths\<close>

text \<open>
  \<open>s.split(sep)\<close> for a separator that is not empty (the source only splits at
  \<open>'/'\<close>, \<open>'.csv'\<close>, \<open>'_'\<close> and \<open>'-'\<close>): the pieces between the occurrences of
  \<open>sep\<close>, found from the left, never overlapping. The result is never empty.
\<close>

fun py_split :: "string \<Rightarrow> string \<Rightarrow> string list" where
  "py_split sep [] = [[]]"
| "py_split sep (c # cs) =
     (if take (length sep) (c # cs) = sep
      then [] # py_split sep (drop (length sep - 1) cs)
      else (c # hd (py_split sep cs)) # tl (py_split sep cs))"

definition py_endswith :: "string \<Rightarrow> string \<Rightarrow> bool" where
  "py_endswith s suffix =
     (length suffix \<le> length s \<and> drop (length s - length suffix) s = suffix)"

text \<open>
  \<open>os.path.join(a, b)\<close> of \<open>posixpath\<close>: an absolute \<open>b\<close> replaces \<open>a\<close>; otherwise a
  \<open>'/'\<close> goes between them unless \<open>a\<close> is empty or ends with one.
\<close>

definition path_join :: "string \<Rightarrow> string \<Rightarrow> string" where
  "path_join a b =
     (if take 1 b = ''/'' then b
      else if a = [] \<or> py_endswith a ''/'' then a @ b
      else a @ ''/'' @ b)"

section \<open>The folder loader\<close>

text \<open>
  What \<open>read_csv_folder\<close> asks of the operating system: \<open>os.path.isdir\<close>,
  \<open>os.listdir\<close> (whose order is the system's) and \<open>os.path.isfile\<close>.
\<close>

record filesystem =
  isdir :: "string \<Rightarrow> bool"
  listdir :: "string \<Rightarrow> string list"
  isfile :: "string \<Rightarrow> bool"

text \<open>
  Lines 44 to 50 of the loop body: the entity name of a file.
  \<^verbatim>\<open>
  split_path = file.split('/')
  entity_type = split_path[len(split_path) - 1].split('.csv')[0]
  if '_' in entity_type:
      entity_type = entity_type.split('_')[0]
  if '-' in entity_type:
      entity_type = entity_type.split('-')[0]
  \<close>
\<close>

definition entity_type_of :: "string \<Rightarrow> string" where
  "entity_type_of file =
     (let split_path = py_split ''/'' file;
          entity_type0 = hd (py_split ''.csv'' (last split_path));
          entity_type1 = (if CHR ''_'' \<in> set entity_type0
                          then hd (py_split ''_'' entity_type0) else entity_type0)
      in if CHR ''-'' \<in> set entity_type1
         then hd (py_split ''-'' entity_type1) else entity_type1)"

text \<open>
  The loop over \<open>all_files\<close>, with the dict \<open>results\<close> as its state. \<open>pd.read_csv\<close> is a
  parameter: from the file, the index column and the converters of the entity
  (\<open>dict.get\<close>: \<open>None\<close> when the entity has none) to the parsed table, or to the
  exception the parser raises. The loader catches nothing.
\<close>

fun read_files ::
  "(string \<Rightarrow> 'i option \<Rightarrow> 'c option \<Rightarrow> pyerr + 't) \<Rightarrow> (string \<times> 'c) list \<Rightarrow>
   (string \<times> 'i) list \<Rightarrow> string list \<Rightarrow> (string \<times> 't) list \<Rightarrow> pyerr + (string \<times> 't) list"
where
  "read_files read_csv converters index_cols [] results = Inr results"
| "read_files read_csv converters index_cols (file # files) results =
     (let entity_type = entity_type_of file in
      if map_of results entity_type = None
      then (case read_csv file (map_of index_cols entity_type) (map_of converters entity_type) of
              Inl e \<Rightarrow> Inl e
            | Inr table \<Rightarrow>
                read_files read_csv converters index_cols files (results @ [(entity_type, table)]))
      else read_files read_csv converters index_cols files results)"

definition read_csv_folder ::
  "filesystem \<Rightarrow> (string \<Rightarrow> 'i option \<Rightarrow> 'c option \<Rightarrow> pyerr + 't) \<Rightarrow> string \<Rightarrow>
   (string \<times> 'c) list \<Rightarrow> (string \<times> 'i) list \<Rightarrow> pyerr + (string \<times> 't) list"
where
  "read_csv_folder fs read_csv path converters index_cols =
     (let all_files =
            (if isdir fs path
             then filter (\<lambda>file. isfile fs file \<and> py_endswith file ''.csv'')
                    (map (path_join path) (listdir fs path))
             else [path])
      in read_files read_csv converters index_cols all_files [])"

section \<open>Tables\<close>

text \<open>
  A pandas \<open>DataFrame\<close>: the labels of its rows, and its columns in order, each a
  label with one value per row. Column labels may repeat (the code can return such a
  table); the theorems say where they assume that the labels of the table passed in
  differ from each other.
\<close>

record dataframe =
  row_labels :: "pyval list"
  cols :: "(pyval \<times> pyval list) list"

definition columns :: "dataframe \<Rightarrow> pyval list" where
  "columns d = map fst (cols d)"

text \<open>
  Tables are mutable objects that callers hold by reference. The store lists the
  table objects that exist; a reference is a position in it. A pandas operation that
  returns a new table allocates one; an assignment \<open>df[label] = values\<close> changes the
  object in place.
\<close>

type_synonym ref = nat
type_synonym store = "dataframe list"

definition new_table :: "store \<Rightarrow> dataframe \<Rightarrow> store \<times> (pyerr + ref)" where
  "new_table h d = (h @ [d], Inr (length h))"

section \<open>The pandas operations the code calls\<close>

text \<open>
  Each definition below describes one pandas call (pandas 1.x, where the second
  positional argument of \<open>drop\<close> is the axis), for the arguments the code makes. A
  \<open>Series\<close> taken from a table, or made by \<open>apply\<close> from one, has the table's row
  labels, so it is the list of its values, and pandas aligns it with the table
  position by position.
  pandas may change how it stores the values of a column (an integer beside a
  missing value becomes the float of the same value); a column here holds the values
  as they were computed.
\<close>

text \<open>
  \<open>df[label]\<close> with one label: the column as a \<open>Series\<close>; \<open>KeyError\<close> without such a
  column. With a repeated label pandas returns a table of the columns.
\<close>

definition getitem :: "dataframe \<Rightarrow> pyval \<Rightarrow> pyerr + pyval list" where
  "getitem d label =
     (case filter (\<lambda>p. fst p = label) (cols d) of
        [] \<Rightarrow> Inl KeyError
      | [p] \<Rightarrow> Inr (snd p)
      | p # q # ps \<Rightarrow> Inl NotModelled)"

text \<open>
  \<open>df[labels]\<close> with a list of labels: a new table of the columns named, in the
  list's order, every column that carries a label for each time the list names it;
  \<open>KeyError\<close> when a label names no column.
\<close>

definition getitem_list :: "dataframe \<Rightarrow> pyval list \<Rightarrow> pyerr + dataframe" where
  "getitem_list d labels =
     (if list_all (\<lambda>l. l \<in> set (columns d)) labels
      then Inr (d\<lparr>cols := concat (map (\<lambda>l. filter (\<lambda>p. fst p = l) (cols d)) labels)\<rparr>)
      else Inl KeyError)"

text \<open>
  \<open>df[label] = values\<close>: in place. A column with the label takes the values where it
  stands; otherwise the column is appended.
\<close>

definition setitem :: "dataframe \<Rightarrow> pyval \<Rightarrow> pyval list \<Rightarrow> dataframe" where
  "setitem d label values =
     (if label \<in> set (columns d)
      then d\<lparr>cols := map (\<lambda>p. if fst p = label then (label, values) else p) (cols d)\<rparr>
      else d\<lparr>cols := cols d @ [(label, values)]\<rparr>)"

text \<open>
  \<open>df.drop(label, 1)\<close>: a new table without the columns that carry the label;
  \<open>KeyError\<close> when there is none.
\<close>

definition drop_column :: "dataframe \<Rightarrow> pyval \<Rightarrow> pyerr + dataframe" where
  "drop_column d label =
     (if label \<in> set (columns d)
      then Inr (d\<lparr>cols := filter (\<lambda>p. fst p \<noteq> label) (cols d)\<rparr>)
      else Inl KeyError)"

text \<open>\<open>series.apply(f)\<close>: \<open>f\<close> on every value in order; the first exception ends it.\<close>

fun series_apply :: "('a \<Rightarrow> pyerr + 'b) \<Rightarrow> 'a list \<Rightarrow> pyerr + 'b list" where
  "series_apply f [] = Inr []"
| "series_apply f (y # ys) =
     (case f y of
        Inl e \<Rightarrow> Inl e
      | Inr v \<Rightarrow> (case series_apply f ys of Inl e \<Rightarrow> Inl e | Inr vs \<Rightarrow> Inr (v # vs)))"

text \<open>
  When \<open>f\<close> returns a \<open>Series\<close> for each value, \<open>apply\<close> returns a table with one row
  per value: its columns are the labels of those \<open>Series\<close> in the order in which they
  first appear, and a row has \<open>nan\<close> where its \<open>Series\<close> lacks the label. A \<open>Series\<close>
  built from a dict is the dict's entries. The column order is pandas' only when
  every label is a string (with numeric labels pandas may sort them), so other labels
  are not modelled. On a \<open>Series\<close> without values \<open>apply\<close> returns that empty
  \<open>Series\<close>, not a table.
\<close>

fun is_str :: "pyval \<Rightarrow> bool" where
  "is_str (PStr s) = True"
| "is_str v = False"

definition first_seen :: "'a list \<Rightarrow> 'a list" where
  "first_seen xs = rev (remdups (rev xs))"

definition record_value :: "pydict \<Rightarrow> pyval \<Rightarrow> pyval" where
  "record_value r label = (case map_of r label of None \<Rightarrow> PNaN | Some v \<Rightarrow> v)"

datatype applied = Empty_Series | Table dataframe

definition expand_records :: "pyval list \<Rightarrow> pydict list \<Rightarrow> pyerr + applied" where
  "expand_records labels records =
     (if records = [] then Inr Empty_Series
      else if list_all (\<lambda>r. list_all (\<lambda>p. is_str (fst p)) r) records
      then Inr (Table \<lparr>row_labels = labels,
                        cols = map (\<lambda>l. (l, map (\<lambda>r. record_value r l) records))
                                 (first_seen (concat (map (map fst) records)))\<rparr>)
      else Inl NotModelled)"

text \<open>
  \<open>left.join(right)\<close>, where \<open>right\<close> was computed from a column of the table \<open>left\<close>
  was cut from and has its row labels; \<open>ValueError\<close> when a column label is in both
  tables. When no row label repeats, the result has the rows of \<open>left\<close> in their
  order, each with the columns of \<open>right\<close> after its own. When a row label repeats,
  pandas pairs every row of \<open>left\<close> with every row of \<open>right\<close> under the same label:
  the result goes through the distinct labels in sorted order, and under one label
  through the rows of \<open>left\<close> in their order, each followed by all the rows of
  \<open>right\<close> with that label in theirs. The sorted order is modelled for labels that
  are all integers or all strings (Python compares strings by code point, which is
  the order of their bytes). An empty \<open>Series\<close> joins as one column under its name,
  the label of the column it was taken from.
\<close>

fun is_int :: "pyval \<Rightarrow> bool" where
  "is_int (PInt i) = True"
| "is_int v = False"

fun int_labels :: "pyval list \<Rightarrow> int list" where
  "int_labels [] = []"
| "int_labels (PInt i # ls) = i # int_labels ls"
| "int_labels (l # ls) = int_labels ls"

fun str_labels :: "pyval list \<Rightarrow> string list" where
  "str_labels [] = []"
| "str_labels (PStr s # ls) = s # str_labels ls"
| "str_labels (l # ls) = str_labels ls"

definition sorted_labels :: "pyval list \<Rightarrow> pyerr + pyval list" where
  "sorted_labels labels =
     (if list_all is_int labels then Inr (map PInt (sort (remdups (int_labels labels))))
      else if list_all is_str labels then Inr (map PStr (sort (remdups (str_labels labels))))
      else Inl NotModelled)"

text \<open>
  The values a column has in the rows labelled \<open>k\<close>, in order; then the column of the
  paired table on the side of \<open>left\<close> (every value once for each row of \<open>right\<close> with
  its label) and on the side of \<open>right\<close> (the values under a label once for each row
  of \<open>left\<close> with that label).
\<close>

definition labelled :: "pyval list \<Rightarrow> pyval \<Rightarrow> 'a list \<Rightarrow> 'a list" where
  "labelled labels k values = map snd (filter (\<lambda>p. fst p = k) (zip labels values))"

definition pair_left :: "pyval list \<Rightarrow> pyval list \<Rightarrow> 'a list \<Rightarrow> 'a list" where
  "pair_left labels keys values =
     concat (map (\<lambda>k. concat (map (replicate (length (filter (\<lambda>l. l = k) labels)))
                                 (labelled labels k values))) keys)"

definition pair_right :: "pyval list \<Rightarrow> pyval list \<Rightarrow> 'a list \<Rightarrow> 'a list" where
  "pair_right labels keys values =
     concat (map (\<lambda>k. concat (replicate (length (filter (\<lambda>l. l = k) labels))
                                 (labelled labels k values))) keys)"

definition join_tables :: "dataframe \<Rightarrow> dataframe \<Rightarrow> pyerr + dataframe" where
  "join_tables left right =
     (if row_labels right \<noteq> row_labels left then Inl NotModelled
      else if distinct (row_labels left)
      then (if list_ex (\<lambda>l. l \<in> set (columns left)) (columns right) then Inl ValueError
            else Inr (left\<lparr>cols := cols left @ cols right\<rparr>))
      else case sorted_labels (row_labels left) of
        Inl e \<Rightarrow> Inl e
      | Inr keys \<Rightarrow>
          (if list_ex (\<lambda>l. l \<in> set (columns left)) (columns right) then Inl ValueError
           else Inr \<lparr>row_labels = pair_left (row_labels left) keys (row_labels left),
                     cols = map (\<lambda>c. (fst c, pair_left (row_labels left) keys (snd c))) (cols left)
                          @ map (\<lambda>c. (fst c, pair_right (row_labels left) keys (snd c)))
                              (cols right)\<rparr>))"

definition as_table :: "pyval list \<Rightarrow> pyval \<Rightarrow> applied \<Rightarrow> dataframe" where
  "as_table labels name a =
     (case a of
        Empty_Series \<Rightarrow> \<lparr>row_labels = labels, cols = [(name, [])]\<rparr>
      | Table t \<Rightarrow> t)"

text \<open>
  \<open>x.add_prefix(prefix)\<close>: on a table, the prefix before every column label; on a
  \<open>Series\<close>, before every row label, of which the empty \<open>Series\<close> has none.
\<close>

fun prefix_label :: "string \<Rightarrow> pyval \<times> pyval list \<Rightarrow> pyerr + pyval \<times> pyval list" where
  "prefix_label prefix (PStr s, values) = Inr (PStr (prefix @ s), values)"
| "prefix_label prefix (l, values) = Inl NotModelled"

definition add_prefix :: "string \<Rightarrow> applied \<Rightarrow> pyerr + applied" where
  "add_prefix prefix a =
     (case a of
        Empty_Series \<Rightarrow> Inr Empty_Series
      | Table t \<Rightarrow>
          (case series_apply (prefix_label prefix) (cols t) of
             Inl e \<Rightarrow> Inl e
           | Inr cs \<Rightarrow> Inr (Table (t\<lparr>cols := cs\<rparr>))))"

text \<open>
  \<open>pd.concat([a, b], axis=1)\<close> of two objects with the same row labels: the columns of
  \<open>a\<close>, then those of \<open>b\<close>, row by row, whatever the labels.
\<close>

definition concat_columns :: "dataframe \<Rightarrow> dataframe \<Rightarrow> pyerr + dataframe" where
  "concat_columns a b =
     (if row_labels a = row_labels b then Inr (a\<lparr>cols := cols a @ cols b\<rparr>)
      else Inl NotModelled)"

text \<open>
  \<open>df.explode(label)\<close>: \<open>ValueError\<close> when the column labels are not unique, \<open>KeyError\<close>
  without the column. A new table in which a row whose cell is a list of \<open>n > 0\<close>
  elements stands \<open>n\<close> times, once with each element in the cell, a row whose cell is
  the empty list once with \<open>nan\<close> in the cell, and any other row once, unchanged. What
  pandas does with a dict in the cell changed between its versions and is not
  modelled.
\<close>

fun explode_cell :: "pyval \<Rightarrow> pyerr + pyval list" where
  "explode_cell (PList []) = Inr [PNaN]"
| "explode_cell (PList (x # xs)) = Inr (x # xs)"
| "explode_cell (PDict d) = Inl NotModelled"
| "explode_cell v = Inr [v]"

definition repeat_rows :: "'a list list \<Rightarrow> 'b list \<Rightarrow> 'b list" where
  "repeat_rows parts values = concat (map (\<lambda>(part, v). replicate (length part) v) (zip parts values))"

definition explode :: "dataframe \<Rightarrow> pyval \<Rightarrow> pyerr + dataframe" where
  "explode d label =
     (if \<not> distinct (columns d) then Inl ValueError
      else case getitem d label of
        Inl e \<Rightarrow> Inl e
      | Inr cells \<Rightarrow>
          (case series_apply explode_cell cells of
             Inl e \<Rightarrow> Inl e
           | Inr parts \<Rightarrow>
               Inr \<lparr>row_labels = repeat_rows parts (row_labels d),
                    cols = map (\<lambda>p. if fst p = label then (label, concat parts)
                                     else (fst p, repeat_rows parts (snd p))) (cols d)\<rparr>))"

text \<open>
  \<open>pd.Index(keys).intersection(pd.Index(columns)).array\<close>: the keys that are column
  labels, in the order of the keys. The keys of a dict do not repeat; what pandas
  returns when the column labels do is not modelled.
\<close>

definition index_intersection :: "pyval list \<Rightarrow> pyval list \<Rightarrow> pyerr + pyval list" where
  "index_intersection keys labels =
     (if distinct keys \<and> distinct labels then Inr (filter (\<lambda>k. k \<in> set labels) keys)
      else Inl NotModelled)"

text \<open>\<open>df.rename(columns=mapping)\<close>: a new table; a label that is a key takes its value.\<close>

definition rename_label :: "(string \<times> string) list \<Rightarrow> pyval \<Rightarrow> pyval" where
  "rename_label mapping label =
     (case label of
        PStr s \<Rightarrow> (case map_of mapping s of None \<Rightarrow> label | Some new \<Rightarrow> PStr new)
      | _ \<Rightarrow> label)"

definition rename_columns :: "dataframe \<Rightarrow> (string \<times> string) list \<Rightarrow> dataframe" where
  "rename_columns d mapping = d\<lparr>cols := map (\<lambda>p. (rename_label mapping (fst p), snd p)) (cols d)\<rparr>"

section \<open>The tuple expander\<close>

text \<open>
  The column configuration: \<open>cols\<close> names the two new columns, \<open>look_up\<close> the two
  properties read from a cell. The default is the one of the signature.
\<close>

record prop_pair =
  key_prop :: string
  value_prop :: string

record col_config =
  cfg_cols :: prop_pair
  look_up :: prop_pair

definition default_col_config :: col_config where
  "default_col_config =
     \<lparr>cfg_cols = \<lparr>key_prop = ''Name'', value_prop = ''Value''\<rparr>,
      look_up = \<lparr>key_prop = ''name'', value_prop = ''value''\<rparr>\<rparr>"

text \<open>
  \<^verbatim>\<open>
  df[col_config['cols']['key_prop']] = df[column_name].apply(
      lambda y: get_value(y, col_config['look_up']['key_prop']))
  df[col_config['cols']['value_prop']] = df[column_name].apply(
      lambda y: get_value(y, col_config['look_up']['value_prop']))
  return df.drop(column_name, 1)
  \<close>
  The two assignments change the caller's table, the object at \<open>df\<close> in the store; the
  second reads the column again from the table the first has changed. \<open>drop\<close> returns
  a new table. The result is the store after the call, and the reference returned or
  the exception raised.
\<close>

definition json_tuple_to_cols ::
  "(string \<Rightarrow> pyerr + pyval) \<Rightarrow> store \<Rightarrow> ref \<Rightarrow> string \<Rightarrow> col_config \<Rightarrow> store \<times> (pyerr + ref)"
where
  "json_tuple_to_cols literal_eval h df column_name config =
     (case getitem (h ! df) (PStr column_name) of
        Inl e \<Rightarrow> (h, Inl e)
      | Inr cells \<Rightarrow>
     (case series_apply (\<lambda>y. get_value literal_eval y (key_prop (look_up config))) cells of
        Inl e \<Rightarrow> (h, Inl e)
      | Inr keys \<Rightarrow>
     (let h1 = h[df := setitem (h ! df) (PStr (key_prop (cfg_cols config))) keys] in
      case getitem (h1 ! df) (PStr column_name) of
        Inl e \<Rightarrow> (h1, Inl e)
      | Inr cells1 \<Rightarrow>
     (case series_apply (\<lambda>y. get_value literal_eval y (value_prop (look_up config))) cells1 of
        Inl e \<Rightarrow> (h1, Inl e)
      | Inr vals \<Rightarrow>
     (let h2 = h1[df := setitem (h1 ! df) (PStr (value_prop (cfg_cols config))) vals] in
      case drop_column (h2 ! df) (PStr column_name) of
        Inl e \<Rightarrow> (h2, Inl e)
      | Inr result \<Rightarrow> new_table h2 result)))))"

section \<open>The column renamer\<close>

text \<open>
  The target: \<open>None\<close>, a list of column names, a dict from old names to new ones, or
  any other object. Column names given by the caller are strings.
  \<^verbatim>\<open>
  if target_columns is not None:
      if isinstance(target_columns, list):
          return df[target_columns]
      elif isinstance(target_columns, dict):
          idx1 = pd.Index(target_columns.keys())
          idx2 = pd.Index(df.columns)
          target_column_names = idx1.intersection(idx2).array
          return df[target_column_names].rename(columns=target_columns)
  return df
  \<close>
  Without a list or a dict the function returns the caller's own table, the same
  object.
\<close>

datatype target = Target_None | Target_List "string list" | Target_Dict "(string \<times> string) list"
  | Target_Other

definition rename :: "store \<Rightarrow> ref \<Rightarrow> target \<Rightarrow> store \<times> (pyerr + ref)" where
  "rename h df target_columns =
     (case target_columns of
        Target_List names \<Rightarrow>
          (case getitem_list (h ! df) (map PStr names) of
             Inl e \<Rightarrow> (h, Inl e)
           | Inr result \<Rightarrow> new_table h result)
      | Target_Dict mapping \<Rightarrow>
          (case index_intersection (map (\<lambda>p. PStr (fst p)) mapping) (columns (h ! df)) of
             Inl e \<Rightarrow> (h, Inl e)
           | Inr target_column_names \<Rightarrow>
               (case getitem_list (h ! df) target_column_names of
                  Inl e \<Rightarrow> (h, Inl e)
                | Inr selected \<Rightarrow> new_table h (rename_columns selected mapping)))
      | _ \<Rightarrow> (h, Inr df))"

section \<open>The row exploder\<close>

text \<open>
  \<^verbatim>\<open>
  source_df = df.explode(column_name)
  def flatten(y):
      if type(y) is str:
          y = ast.literal_eval(y)
      return pd.Series(nested_to_record(y, sep='.', max_level=max_level))
  final_df = pd.concat([source_df,
      source_df[column_name].apply(flatten).add_prefix(f"{column_name}.")], axis=1)
  final_df.drop(column_name, 1)
  return final_df
  \<close>
  \<open>nested_to_record\<close> is a function of pandas: it is the parameter
  \<open>nested_to_record\<close>, from the value, the separator and the depth to the flattened
  value or an exception. \<open>pd.Series\<close> of a dict has the dict's entries, of the empty
  list none; of anything else it has positions for labels and is not modelled.
\<close>

fun pd_Series :: "pyval \<Rightarrow> pyerr + pydict" where
  "pd_Series (PDict d) = Inr d"
| "pd_Series (PList []) = Inr []"
| "pd_Series v = Inl NotModelled"

definition flatten ::
  "(string \<Rightarrow> pyerr + pyval) \<Rightarrow> (pyval \<Rightarrow> string \<Rightarrow> 'm \<Rightarrow> pyerr + pyval) \<Rightarrow> 'm \<Rightarrow> pyval \<Rightarrow>
   pyerr + pydict"
where
  "flatten literal_eval nested_to_record max_level y =
     (case decode_str literal_eval y of
        Inl e \<Rightarrow> Inl e
      | Inr y' \<Rightarrow>
          (case nested_to_record y' ''.'' max_level of
             Inl e \<Rightarrow> Inl e
           | Inr flat \<Rightarrow> pd_Series flat))"

definition explode_json_to_rows ::
  "(string \<Rightarrow> pyerr + pyval) \<Rightarrow> (pyval \<Rightarrow> string \<Rightarrow> 'm \<Rightarrow> pyerr + pyval) \<Rightarrow> store \<Rightarrow> ref \<Rightarrow>
   string \<Rightarrow> 'm \<Rightarrow> store \<times> (pyerr + ref)"
where
  "explode_json_to_rows literal_eval nested_to_record h df column_name max_level =
     (case explode (h ! df) (PStr column_name) of
        Inl e \<Rightarrow> (h, Inl e)
      | Inr source_df \<Rightarrow>
     (case getitem source_df (PStr column_name) of
        Inl e \<Rightarrow> (h, Inl e)
      | Inr cells \<Rightarrow>
     (case series_apply (flatten literal_eval nested_to_record max_level) cells of
        Inl e \<Rightarrow> (h, Inl e)
      | Inr records \<Rightarrow>
     (case expand_records (row_labels source_df) records of
        Inl e \<Rightarrow> (h, Inl e)
      | Inr flat \<Rightarrow>
     (case add_prefix (column_name @ ''.'') flat of
        Inl e \<Rightarrow> (h, Inl e)
      | Inr prefixed \<Rightarrow>
     (case concat_columns source_df
             (as_table (row_labels source_df) (PStr column_name) prefixed) of
        Inl e \<Rightarrow> (h, Inl e)
      | Inr final_df \<Rightarrow>
     (case drop_column final_df (PStr column_name) of
        Inl e \<Rightarrow> (h, Inl e)
      | Inr dropped \<Rightarrow> new_table h final_df)))))))"

section \<open>The column exploder\<close>

text \<open>
  \<^verbatim>\<open>
  reducer = kwargs.get('reducer', array_to_dict_reducer('Name', 'Value'))
  def json_to_series(y):
      value = y
      if type(value) is str:
          value = ast.literal_eval(y)
      if type(value) is dict:
          return pd.Series(reduce(reducer, [value], {}))
      if type(value) is list:
          return pd.Series(reduce(reducer, value, {}))
      else:
          return pd.Series([])
  source_columns = df.columns
  child_df = df[source_columns]
  child_df = child_df.pipe(
      lambda x: x.drop(column_name, 1).join(
          x[column_name].apply(json_to_series)))
  return child_df
  \<close>
  The reducer is a function from the accumulator dict and an element to the next
  accumulator, or to an exception.
\<close>

definition json_to_series ::
  "(string \<Rightarrow> pyerr + pyval) \<Rightarrow> (pydict \<Rightarrow> pyval \<Rightarrow> pyerr + pydict) \<Rightarrow> pyval \<Rightarrow> pyerr + pydict"
where
  "json_to_series literal_eval reducer y =
     (case decode_str literal_eval y of
        Inl e \<Rightarrow> Inl e
      | Inr value \<Rightarrow>
          (case value of
             PDict d \<Rightarrow> py_reduce reducer [value] []
           | PList xs \<Rightarrow> py_reduce reducer xs []
           | _ \<Rightarrow> Inr []))"

definition explode_json_to_cols ::
  "(string \<Rightarrow> pyerr + pyval) \<Rightarrow> store \<Rightarrow> ref \<Rightarrow> string \<Rightarrow>
   (pydict \<Rightarrow> pyval \<Rightarrow> pyerr + pydict) option \<Rightarrow> store \<times> (pyerr + ref)"
where
  "explode_json_to_cols literal_eval h df column_name reducer_arg =
     (let reducer = (case reducer_arg of
                       None \<Rightarrow> array_to_dict_reducer ''Name'' ''Value''
                     | Some r \<Rightarrow> r);
          source_columns = columns (h ! df) in
      case getitem_list (h ! df) source_columns of
        Inl e \<Rightarrow> (h, Inl e)
      | Inr child_df \<Rightarrow>
     (case drop_column child_df (PStr column_name) of
        Inl e \<Rightarrow> (h, Inl e)
      | Inr left \<Rightarrow>
     (case getitem child_df (PStr column_name) of
        Inl e \<Rightarrow> (h, Inl e)
      | Inr cells \<Rightarrow>
     (case series_apply (json_to_series literal_eval reducer) cells of
        Inl e \<Rightarrow> (h, Inl e)
      | Inr records \<Rightarrow>
     (case expand_records (row_labels child_df) records of
        Inl e \<Rightarrow> (h, Inl e)
      | Inr right \<Rightarrow>
     (case join_tables left (as_table (row_labels child_df) (PStr column_name) right) of
        Inl e \<Rightarrow> (h, Inl e)
      | Inr result \<Rightarrow> new_table h result))))))"

section \<open>Properties of the reducer\<close>

lemma dict_store_twice: "dict_store k v (dict_store k v' d) = dict_store k v d"
  by (induction d) auto

text \<open>
  C8. The reducer built by \<open>array_to_dict_reducer\<close>, for any two property names and
  any accumulator, raises the exception written in its first branch
  (\<open>AttributeError("Value being reduced must be a dictionary")\<close>) on every element
  that is not a dict, and so does the fold of a list holding only that element from
  the empty accumulator. The exception is the explicit \<open>raise\<close> of the source, with its
  own message, and not the one Python raises for a missing attribute.
\<close>

theorem reducer_rejects_non_dict:
  assumes "\<not> is_dict v"
  shows "array_to_dict_reducer kp vp acc v = Inl must_be_dictionary
       \<and> py_reduce (array_to_dict_reducer kp vp) [v] [] = Inl must_be_dictionary
       \<and> must_be_dictionary \<noteq> no_attribute_get"
  using assms by (cases v) (simp_all add: must_be_dictionary_def no_attribute_get_def)

theorem reducer_rejects_non_dict_witness:
  "\<not> is_dict (PStr ''not-a-dict'')
   \<and> py_reduce (array_to_dict_reducer ''Name'' ''Value'') [PStr ''not-a-dict''] []
       = Inl (AttributeError ''Value being reduced must be a dictionary'')"
  using reducer_rejects_non_dict [of "PStr ''not-a-dict''" "''Name''" "''Value''" "[]"]
  by (simp add: must_be_dictionary_def)

lemma py_reduce_absent_key:
  assumes "list_all (\<lambda>x. \<exists>d'. x = PDict d' \<and> map_of d' (PStr kp) = None) xs"
    and "map_of d (PStr kp) = None"
  shows "py_reduce (array_to_dict_reducer kp vp) (xs @ [PDict d]) acc
       = Inr (dict_store PNone (dict_get d (PStr vp)) acc)"
  using assms
proof (induction xs arbitrary: acc)
  case Nil
  then show ?case by (simp add: dict_setitem_def dict_get_def)
next
  case (Cons x xs)
  then obtain d' where x: "x = PDict d'" and none: "map_of d' (PStr kp) = None" by auto
  have step: "array_to_dict_reducer kp vp acc x = Inr (dict_store PNone (dict_get d' (PStr vp)) acc)"
    using x none by (simp add: dict_setitem_def dict_get_def)
  from Cons have "py_reduce (array_to_dict_reducer kp vp) (xs @ [PDict d])
          (dict_store PNone (dict_get d' (PStr vp)) acc)
        = Inr (dict_store PNone (dict_get d (PStr vp)) (dict_store PNone (dict_get d' (PStr vp)) acc))"
    by simp
  with step show ?case by (simp add: dict_store_twice)
qed

text \<open>
  C10. On a dict that lacks the key property the reducer does not fail: \<open>get\<close> reads
  the missing property as \<open>None\<close>, and the record's value is stored under the key
  \<open>None\<close>. On a dict that lacks the value property it stores \<open>None\<close> under the record's
  key (which, as for every record, must be hashable). Folding any number of records
  that lack the key property leaves one entry under \<open>None\<close>, holding the value of the
  last of them.
\<close>

theorem reducer_missing_property:
  "(map_of d (PStr kp) = None \<longrightarrow>
      array_to_dict_reducer kp vp acc (PDict d)
        = Inr (dict_store PNone (dict_get d (PStr vp)) acc))
 \<and> (map_of d (PStr vp) = None \<and> hashable (dict_get d (PStr kp)) \<longrightarrow>
      array_to_dict_reducer kp vp acc (PDict d)
        = Inr (dict_store (dict_get d (PStr kp)) PNone acc))
 \<and> (list_all (\<lambda>x. \<exists>d'. x = PDict d' \<and> map_of d' (PStr kp) = None) xs
      \<and> map_of d (PStr kp) = None \<longrightarrow>
      py_reduce (array_to_dict_reducer kp vp) (xs @ [PDict d]) acc
        = Inr (dict_store PNone (dict_get d (PStr vp)) acc))"
  using py_reduce_absent_key [of kp xs d vp acc]
  by (simp add: dict_setitem_def dict_get_def)

theorem reducer_missing_property_witness:
  "array_to_dict_reducer ''Name'' ''Value'' [(PStr ''First'', PStr ''John'')]
     (PDict [(PStr ''Value'', PInt 1)])
     = Inr [(PStr ''First'', PStr ''John''), (PNone, PInt 1)]
 \<and> array_to_dict_reducer ''Name'' ''Value'' [(PStr ''First'', PStr ''John'')]
     (PDict [(PStr ''Name'', PStr ''Last'')])
     = Inr [(PStr ''First'', PStr ''John''), (PStr ''Last'', PNone)]
 \<and> py_reduce (array_to_dict_reducer ''Name'' ''Value'')
     ([PDict [(PStr ''Value'', PInt 1)], PDict []] @ [PDict [(PStr ''Value'', PInt 3)]]) []
     = Inr [(PNone, PInt 3)]"
  using reducer_missing_property
          [where d = "[(PStr ''Value'', PInt 1)]" and kp = "''Name''" and vp = "''Value''"
             and acc = "[(PStr ''First'', PStr ''John'')]" and xs = "[]"]
        reducer_missing_property
          [where d = "[(PStr ''Name'', PStr ''Last'')]" and kp = "''Name''" and vp = "''Value''"
             and acc = "[(PStr ''First'', PStr ''John'')]" and xs = "[]"]
        reducer_missing_property
          [where d = "[(PStr ''Value'', PInt 3)]" and kp = "''Name''" and vp = "''Value''"
             and acc = "[]" and xs = "[PDict [(PStr ''Value'', PInt 1)], PDict []]"]
  by (simp add: dict_get_def)

section \<open>Properties of the per-cell extraction rule\<close>

text \<open>
  C3, as the code has it. \<open>get_value\<close> returns \<open>None\<close> for a cell that is neither a
  string, a dict nor a list, and for a string that decodes to such a value; for a
  dict it returns the property, \<open>None\<close> when the dict lacks it; for a list whose first
  element is a dict it returns that element's property. It catches nothing: when the
  decoder raises on a string cell, the exception leaves \<open>get_value\<close>.
\<close>

theorem get_value_cases:
  "(decode_str le y = Inl e \<longrightarrow> get_value le y name = Inl e)
 \<and> (decode_str le y = Inr v \<and> \<not> is_dict v \<and> \<not> is_list v \<longrightarrow> get_value le y name = Inr PNone)
 \<and> (decode_str le y = Inr (PDict d) \<longrightarrow> get_value le y name = Inr (dict_get d (PStr name)))
 \<and> (decode_str le y = Inr (PList (PDict d # rest)) \<longrightarrow>
        get_value le y name = Inr (dict_get d (PStr name)))"
  by (cases v) (simp_all add: get_value_def)

theorem get_value_cases_witness:
  "get_value (\<lambda>s. if s = ''7'' then Inr (PInt 7) else Inl SyntaxError) (PStr ''{'') ''name''
     = Inl SyntaxError
 \<and> get_value (\<lambda>s. if s = ''7'' then Inr (PInt 7) else Inl SyntaxError) (PStr ''7'') ''name''
     = Inr PNone
 \<and> get_value (\<lambda>s. Inl SyntaxError) PNone ''name'' = Inr PNone
 \<and> get_value (\<lambda>s. Inl SyntaxError) (PDict [(PStr ''name'', PStr ''Discount'')]) ''name''
     = Inr (PStr ''Discount'')
 \<and> get_value (\<lambda>s. Inl SyntaxError) (PDict [(PStr ''name'', PStr ''Discount'')]) ''value''
     = Inr PNone
 \<and> get_value (\<lambda>s. Inl SyntaxError) (PList [PDict [(PStr ''name'', PStr ''Discount'')], PInt 1])
       ''name'' = Inr (PStr ''Discount'')"
  using get_value_cases
          [where le = "\<lambda>s. if s = ''7'' then Inr (PInt 7) else Inl SyntaxError"
             and y = "PStr ''{''" and e = SyntaxError and name = "''name''"]
        get_value_cases
          [where le = "\<lambda>s. if s = ''7'' then Inr (PInt 7) else Inl SyntaxError"
             and y = "PStr ''7''" and name = "''name''" and v = "PInt 7"]
        get_value_cases [where le = "\<lambda>s. Inl SyntaxError" and y = PNone and name = "''name''"
             and v = PNone]
        get_value_cases
          [where le = "\<lambda>s. Inl SyntaxError" and y = "PDict [(PStr ''name'', PStr ''Discount'')]"
             and name = "''name''" and d = "[(PStr ''name'', PStr ''Discount'')]"]
        get_value_cases
          [where le = "\<lambda>s. Inl SyntaxError" and y = "PDict [(PStr ''name'', PStr ''Discount'')]"
             and name = "''value''" and d = "[(PStr ''name'', PStr ''Discount'')]"]
        get_value_cases
          [where le = "\<lambda>s. Inl SyntaxError"
             and y = "PList [PDict [(PStr ''name'', PStr ''Discount'')], PInt 1]"
             and name = "''name''" and d = "[(PStr ''name'', PStr ''Discount'')]"
             and rest = "[PInt 1]"]
  by (simp add: decode_str_def dict_get_def)

text \<open>
  The claim as the specification states it, that \<open>get_value\<close> never fails, is false:
  a string cell on which the decoder raises makes it raise, and so do, whatever the
  decoder, the empty list and a list whose first element is no dict.
\<close>

theorem get_value_raises:
  "get_value (\<lambda>s. Inl SyntaxError) (PStr ''{'') ''name'' = Inl SyntaxError
 \<and> get_value (\<lambda>s. Inl SyntaxError) (PList []) ''name'' = Inl IndexError
 \<and> get_value (\<lambda>s. Inl SyntaxError) (PList [PInt 1]) ''name'' = Inl no_attribute_get"
  by (simp add: get_value_def decode_str_def)

section \<open>Properties of the folder loader\<close>

lemma py_split_length: "length (py_split [c] s) = Suc (length (filter (\<lambda>x. x = c) s))"
  by (induction s) auto

lemma py_split_nonempty: "py_split sep s \<noteq> []"
  by (cases s) auto

lemma py_split_no_sep: "c \<notin> set a \<Longrightarrow> py_split [c] a = [a]"
  by (induction a) auto

lemma py_split_last: "c \<notin> set a \<Longrightarrow> last (py_split [c] (xs @ c # a)) = a"
proof (induction xs)
  case Nil
  then show ?case by (simp add: py_split_no_sep)
next
  case (Cons x xs)
  have "length (py_split [c] (xs @ c # a)) \<ge> 2" by (simp add: py_split_length)
  then have "tl (py_split [c] (xs @ c # a)) \<noteq> []"
    by (cases "py_split [c] (xs @ c # a)") auto
  moreover have "last (tl (py_split [c] (xs @ c # a))) = last (py_split [c] (xs @ c # a))"
    using calculation by (cases "py_split [c] (xs @ c # a)") auto
  ultimately show ?case using Cons by (auto simp: py_split_nonempty)
qed

lemma path_join_last:
  assumes "CHR ''/'' \<notin> set a"
  shows "last (py_split ''/'' (path_join path a)) = a"
proof -
  have a: "take 1 a \<noteq> ''/''" using assms by (cases a) auto
  show ?thesis
  proof (cases "path = []")
    case True
    then show ?thesis using a assms by (simp add: path_join_def py_split_no_sep)
  next
    case False
    show ?thesis
    proof (cases "py_endswith path ''/''")
      case True
      then have "path = butlast path @ ''/''"
        using False by (cases path rule: rev_cases) (auto simp: py_endswith_def)
      then have "path_join path a = butlast path @ CHR ''/'' # a"
        using a True by (simp add: path_join_def)
      then show ?thesis using assms by (simp add: py_split_last)
    next
      case nend: False
      then have "path_join path a = path @ CHR ''/'' # a"
        using a False by (simp add: path_join_def)
      then show ?thesis using assms by (simp add: py_split_last)
    qed
  qed
qed

lemma py_endswith_append: "py_endswith s suf \<Longrightarrow> py_endswith (p @ s) suf"
  by (auto simp: py_endswith_def)

lemma path_join_suffix: "take 1 a \<noteq> ''/'' \<Longrightarrow> \<exists>p. path_join path a = p @ a"
  by (auto simp: path_join_def)

lemma entity_type_of_joined: "CHR ''/'' \<notin> set a \<Longrightarrow> entity_type_of (path_join path a) = 
    (let entity_type0 = hd (py_split ''.csv'' a);
          entity_type1 = (if CHR ''_'' \<in> set entity_type0
                          then hd (py_split ''_'' entity_type0) else entity_type0)
      in if CHR ''-'' \<in> set entity_type1
         then hd (py_split ''-'' entity_type1) else entity_type1)"
  by (simp add: entity_type_of_def path_join_last)


lemma account_entity:
  assumes "a = ''Account-1.csv'' \<or> a = ''Account-2.csv''"
  shows "entity_type_of (path_join path a) = ''Account''"
    and "py_endswith (path_join path a) ''.csv''"
proof -
  have slash: "CHR ''/'' \<notin> set a" using assms by auto
  show "entity_type_of (path_join path a) = ''Account''"
    using assms by (auto simp: entity_type_of_joined)
  have "take 1 a \<noteq> ''/''" using assms by auto
  then obtain p where "path_join path a = p @ a" using path_join_suffix by blast
  moreover have "py_endswith a ''.csv''" using assms by (auto simp: py_endswith_def)
  ultimately show "py_endswith (path_join path a) ''.csv''" by (simp add: py_endswith_append)
qed

text \<open>
  C4. In a directory whose listing is the two files \<open>Account-1.csv\<close> and
  \<open>Account-2.csv\<close>, in either order, both regular files, the loader returns a dict
  with the one key \<open>"Account"\<close>; its table is the one parsed from the file listed
  first (with the index column and the converters of \<open>"Account"\<close>), whenever the
  parser returns a table for that file. The file listed second is never parsed:
  nothing is assumed of the parser there, and in the witness it would raise.
\<close>

theorem read_csv_folder_first_file_wins:
  assumes dir: "isdir fs path"
    and files: "listdir fs path = [a, b]"
    and names: "{a, b} = {''Account-1.csv'', ''Account-2.csv''}"
    and reg: "isfile fs (path_join path a)" "isfile fs (path_join path b)"
    and parsed: "read_csv (path_join path a) (map_of index_cols ''Account'')
                   (map_of converters ''Account'') = Inr table"
  shows "read_csv_folder fs read_csv path converters index_cols = Inr [(''Account'', table)]"
proof -
  have a: "a = ''Account-1.csv'' \<or> a = ''Account-2.csv''"
    and b: "b = ''Account-1.csv'' \<or> b = ''Account-2.csv''"
    using names by (auto simp: doubleton_eq_iff)
  have "read_csv_folder fs read_csv path converters index_cols
      = read_files read_csv converters index_cols [path_join path a, path_join path b] []"
    using dir files reg account_entity(2) [OF a] account_entity(2) [OF b]
    by (simp add: read_csv_folder_def)
  also have "\<dots> = Inr [(''Account'', table)]"
    using parsed account_entity(1) [OF a] account_entity(1) [OF b] by simp
  finally show ?thesis .
qed

theorem read_csv_folder_first_file_wins_witness:
  "read_csv_folder
     \<lparr>isdir = (\<lambda>p. p = ''/in''), listdir = (\<lambda>p. [''Account-2.csv'', ''Account-1.csv'']),
      isfile = (\<lambda>p. True)\<rparr>
     (\<lambda>file index_col convs. if file = ''/in/Account-2.csv'' then Inr (2::nat) else Inl ValueError)
     ''/in'' ([]::(string \<times> unit) list) ([]::(string \<times> unit) list)
   = Inr [(''Account'', 2)]"
  by (rule read_csv_folder_first_file_wins [where a = "''Account-2.csv''" and b = "''Account-1.csv''"])
     (auto simp: path_join_def py_endswith_def)

section \<open>Properties of the tables\<close>

lemma setitem_columns:
  "columns (setitem d l vs) = (if l \<in> set (columns d) then columns d else columns d @ [l])"
proof -
  have "map fst (map (\<lambda>p. if fst p = l then (l, vs) else p) cs) = map fst cs"
    for cs :: "(pyval \<times> pyval list) list"
    by (induction cs) auto
  then show ?thesis by (simp add: setitem_def columns_def)
qed

lemma drop_column_columns:
  "drop_column d l = Inr res \<Longrightarrow>
     l \<in> set (columns d) \<and> columns res = filter (\<lambda>x. x \<noteq> l) (columns d)"
  by (auto simp: drop_column_def columns_def filter_map comp_def split: if_splits)

lemma explode_columns: "explode d l = Inr s \<Longrightarrow> columns s = columns d"
  by (auto simp: explode_def columns_def comp_def split: if_splits sum.splits)

lemma concat_columns_cols: "concat_columns a b = Inr c \<Longrightarrow> columns c = columns a @ columns b"
  by (auto simp: concat_columns_def columns_def split: if_splits)

section \<open>Properties of the row exploder\<close>

lemma explode_json_to_rows_example:
  "explode_json_to_rows (\<lambda>s. Inl SyntaxError) (\<lambda>v sep (m::nat). Inr v)
     [\<lparr>row_labels = [PInt 1037],
       cols = [(PStr ''Line'', [PList [PDict [(PStr ''Id'', PStr ''1''), (PStr ''Amount'', PInt 275)],
                                      PDict [(PStr ''Id'', PStr ''2''), (PStr ''Amount'', PInt 12)]]]),
               (PStr ''Customer'', [PStr ''Bob''])]\<rparr>] 0 ''Line'' 1
   = ([\<lparr>row_labels = [PInt 1037],
       cols = [(PStr ''Line'', [PList [PDict [(PStr ''Id'', PStr ''1''), (PStr ''Amount'', PInt 275)],
                                      PDict [(PStr ''Id'', PStr ''2''), (PStr ''Amount'', PInt 12)]]]),
               (PStr ''Customer'', [PStr ''Bob''])]\<rparr>,
       \<lparr>row_labels = [PInt 1037, PInt 1037],
        cols = [(PStr ''Line'', [PDict [(PStr ''Id'', PStr ''1''), (PStr ''Amount'', PInt 275)],
                               PDict [(PStr ''Id'', PStr ''2''), (PStr ''Amount'', PInt 12)]]),
                (PStr ''Customer'', [PStr ''Bob'', PStr ''Bob'']),
                (PStr ''Line.Id'', [PStr ''1'', PStr ''2'']),
                (PStr ''Line.Amount'', [PInt 275, PInt 12])]\<rparr>], Inr 1)"
  by (simp add: explode_json_to_rows_def explode_def getitem_def columns_def repeat_rows_def
        flatten_def decode_str_def expand_records_def first_seen_def record_value_def
        add_prefix_def concat_columns_def as_table_def drop_column_def new_table_def)

text \<open>
  C1, what the code does instead. The table \<open>explode_json_to_rows\<close> returns is
  \<open>final_df\<close>, the concatenation; the table that \<open>final_df.drop(column_name, 1)\<close>
  returns is thrown away. So whenever the function returns a table, for any decoder
  and any \<open>nested_to_record\<close>, the table is a new object, the source column is one of
  its columns, and its first columns are all the columns of the table passed in, the
  source column among them.
\<close>

theorem explode_json_to_rows_keeps_source:
  assumes "explode_json_to_rows le ntr h df column_name max_level = (h', Inr r)"
  shows "r = length h \<and> h' = h @ [h' ! r]
       \<and> PStr column_name \<in> set (columns (h' ! r))
       \<and> take (length (columns (h ! df))) (columns (h' ! r)) = columns (h ! df)"
  using assms
  by (auto simp: explode_json_to_rows_def new_table_def drop_column_def
           split: sum.splits if_splits dest!: explode_columns concat_columns_cols)

text \<open>
  One row whose \<open>Line\<close> cell holds two flat records (which \<open>nested_to_record\<close> returns
  as they are): the table returned has the columns \<open>Line\<close>, \<open>Customer\<close>, \<open>Line.Id\<close> and
  \<open>Line.Amount\<close>.
\<close>

theorem explode_json_to_rows_keeps_source_witness:
  "snd (explode_json_to_rows (\<lambda>s. Inl SyntaxError) (\<lambda>v sep (m::nat). Inr v)
     [\<lparr>row_labels = [PInt 1037],
       cols = [(PStr ''Line'', [PList [PDict [(PStr ''Id'', PStr ''1''), (PStr ''Amount'', PInt 275)],
                                      PDict [(PStr ''Id'', PStr ''2''), (PStr ''Amount'', PInt 12)]]]),
               (PStr ''Customer'', [PStr ''Bob''])]\<rparr>] 0 ''Line'' 1) = Inr 1
 \<and> PStr ''Line'' \<in> set (columns (fst (explode_json_to_rows (\<lambda>s. Inl SyntaxError) (\<lambda>v sep (m::nat). Inr v)
     [\<lparr>row_labels = [PInt 1037],
       cols = [(PStr ''Line'', [PList [PDict [(PStr ''Id'', PStr ''1''), (PStr ''Amount'', PInt 275)],
                                      PDict [(PStr ''Id'', PStr ''2''), (PStr ''Amount'', PInt 12)]]]),
               (PStr ''Customer'', [PStr ''Bob''])]\<rparr>] 0 ''Line'' 1) ! 1))
 \<and> columns (fst (explode_json_to_rows (\<lambda>s. Inl SyntaxError) (\<lambda>v sep (m::nat). Inr v)
     [\<lparr>row_labels = [PInt 1037],
       cols = [(PStr ''Line'', [PList [PDict [(PStr ''Id'', PStr ''1''), (PStr ''Amount'', PInt 275)],
                                      PDict [(PStr ''Id'', PStr ''2''), (PStr ''Amount'', PInt 12)]]]),
               (PStr ''Customer'', [PStr ''Bob''])]\<rparr>] 0 ''Line'' 1) ! 1)
   = [PStr ''Line'', PStr ''Customer'', PStr ''Line.Id'', PStr ''Line.Amount'']"
  using explode_json_to_rows_keeps_source [OF explode_json_to_rows_example]
  unfolding explode_json_to_rows_example
  by (simp add: columns_def)

section \<open>What a call does to the caller's table\<close>

lemma rename_keeps_store: "take (length h) (fst (rename h df t)) = h"
  by (auto simp: rename_def new_table_def Let_def split: target.splits sum.splits)

lemma explode_json_to_rows_keeps_store:
  "take (length h) (fst (explode_json_to_rows le ntr h df c ml)) = h"
  by (auto simp: explode_json_to_rows_def new_table_def split: sum.splits)

lemma explode_json_to_cols_keeps_store:
  "take (length h) (fst (explode_json_to_cols le h df c red)) = h"
  by (auto simp: explode_json_to_cols_def new_table_def Let_def split: sum.splits)

lemma json_tuple_to_cols_run:
  assumes "df < length h" and "json_tuple_to_cols le h df c cfg = (h', Inr r)"
  obtains cells keys cells1 vals res where
    "getitem (h ! df) (PStr c) = Inr cells"
    "series_apply (\<lambda>y. get_value le y (key_prop (look_up cfg))) cells = Inr keys"
    "getitem (setitem (h ! df) (PStr (key_prop (cfg_cols cfg))) keys) (PStr c) = Inr cells1"
    "series_apply (\<lambda>y. get_value le y (value_prop (look_up cfg))) cells1 = Inr vals"
    "drop_column (setitem (setitem (h ! df) (PStr (key_prop (cfg_cols cfg))) keys)
        (PStr (value_prop (cfg_cols cfg))) vals) (PStr c) = Inr res"
    "h' = h[df := setitem (setitem (h ! df) (PStr (key_prop (cfg_cols cfg))) keys)
        (PStr (value_prop (cfg_cols cfg))) vals] @ [res]"
    "r = length h"
  using assms
  by (auto simp: json_tuple_to_cols_def new_table_def Let_def split: sum.splits)

lemma json_tuple_to_cols_store:
  assumes "df < length h" and "json_tuple_to_cols le h df c cfg = (h', Inr r)"
  shows "r = length h \<and> length h' = Suc (length h)
       \<and> (\<exists>keys vals.
            h' ! df = setitem (setitem (h ! df) (PStr (key_prop (cfg_cols cfg))) keys)
                        (PStr (value_prop (cfg_cols cfg))) vals)
       \<and> PStr c \<in> set (columns (h' ! df))
       \<and> PStr (key_prop (cfg_cols cfg)) \<in> set (columns (h' ! df))
       \<and> PStr (value_prop (cfg_cols cfg)) \<in> set (columns (h' ! df))
       \<and> PStr c \<notin> set (columns (h' ! r))"
proof -
  from assms obtain cells keys cells1 vals res where
    run: "drop_column (setitem (setitem (h ! df) (PStr (key_prop (cfg_cols cfg))) keys)
        (PStr (value_prop (cfg_cols cfg))) vals) (PStr c) = Inr res"
    "h' = h[df := setitem (setitem (h ! df) (PStr (key_prop (cfg_cols cfg))) keys)
        (PStr (value_prop (cfg_cols cfg))) vals] @ [res]"
    "r = length h"
    by (rule json_tuple_to_cols_run)
  let ?d2 = "setitem (setitem (h ! df) (PStr (key_prop (cfg_cols cfg))) keys)
        (PStr (value_prop (cfg_cols cfg))) vals"
  have at_df: "h' ! df = ?d2" and at_r: "h' ! r = res"
    using run assms(1) by (simp_all add: nth_append)
  have "PStr c \<in> set (columns ?d2)" and "PStr c \<notin> set (columns res)"
    using drop_column_columns [OF run(1)] by simp_all
  moreover have "PStr (key_prop (cfg_cols cfg)) \<in> set (columns ?d2)"
    and "PStr (value_prop (cfg_cols cfg)) \<in> set (columns ?d2)"
    by (simp_all add: setitem_columns)
  ultimately show ?thesis using at_df at_r run by auto
qed

lemma json_tuple_to_cols_example:
  "json_tuple_to_cols (\<lambda>s. Inl SyntaxError)
     [\<lparr>row_labels = [PInt 0],
       cols = [(PStr ''Id'', [PInt 7]),
               (PStr ''Ref'', [PDict [(PStr ''name'', PStr ''Discount''), (PStr ''value'', PInt 10)]])]\<rparr>]
     0 ''Ref'' default_col_config
   = ([\<lparr>row_labels = [PInt 0],
        cols = [(PStr ''Id'', [PInt 7]),
                (PStr ''Ref'', [PDict [(PStr ''name'', PStr ''Discount''), (PStr ''value'', PInt 10)]]),
                (PStr ''Name'', [PStr ''Discount'']),
                (PStr ''Value'', [PInt 10])]\<rparr>,
       \<lparr>row_labels = [PInt 0],
        cols = [(PStr ''Id'', [PInt 7]),
                (PStr ''Name'', [PStr ''Discount'']),
                (PStr ''Value'', [PInt 10])]\<rparr>], Inr 1)"
  by (simp add: json_tuple_to_cols_def default_col_config_def getitem_def setitem_def columns_def
        get_value_def decode_str_def dict_get_def drop_column_def new_table_def)

text \<open>
  C2, as the code has it. \<open>rename\<close>, \<open>explode_json_to_rows\<close> and
  \<open>explode_json_to_cols\<close> leave every table that existed before the call as it was,
  the caller's among them, whether they return or raise (\<open>rename\<close> without a list or
  a dict returns the caller's own table, not a copy). \<open>json_tuple_to_cols\<close> does
  not: when it returns, the caller's table has been assigned the key column and the
  value column in place and still has the source column; only the table returned, a
  new object, lacks the source column.
\<close>

theorem caller_table_after_call:
  assumes "df < length h"
  shows "take (length h) (fst (rename h df t)) = h
       \<and> rename h df Target_None = (h, Inr df)
       \<and> take (length h) (fst (explode_json_to_rows le ntr h df c ml)) = h
       \<and> take (length h) (fst (explode_json_to_cols le h df c red)) = h
       \<and> (\<forall>h' r. json_tuple_to_cols le h df c cfg = (h', Inr r) \<longrightarrow>
            r = length h \<and> length h' = Suc (length h)
            \<and> (\<exists>keys vals.
                 h' ! df = setitem (setitem (h ! df) (PStr (key_prop (cfg_cols cfg))) keys)
                             (PStr (value_prop (cfg_cols cfg))) vals)
            \<and> PStr c \<in> set (columns (h' ! df))
            \<and> PStr (key_prop (cfg_cols cfg)) \<in> set (columns (h' ! df))
            \<and> PStr (value_prop (cfg_cols cfg)) \<in> set (columns (h' ! df))
            \<and> PStr c \<notin> set (columns (h' ! r)))"
proof -
  have "rename h df Target_None = (h, Inr df)" by (simp add: rename_def)
  then show ?thesis
    using json_tuple_to_cols_store [OF assms]
    by (simp add: rename_keeps_store explode_json_to_rows_keeps_store
          explode_json_to_cols_keeps_store)
qed

theorem caller_table_after_call_witness:
  "(0::nat) < length [\<lparr>row_labels = [PInt 0],
       cols = [(PStr ''Id'', [PInt 7]),
               (PStr ''Ref'', [PDict [(PStr ''name'', PStr ''Discount''), (PStr ''value'', PInt 10)]])]\<rparr>]
 \<and> snd (json_tuple_to_cols (\<lambda>s. Inl SyntaxError)
     [\<lparr>row_labels = [PInt 0],
       cols = [(PStr ''Id'', [PInt 7]),
               (PStr ''Ref'', [PDict [(PStr ''name'', PStr ''Discount''), (PStr ''value'', PInt 10)]])]\<rparr>]
     0 ''Ref'' default_col_config) = Inr 1
 \<and> PStr ''Ref'' \<in> set (columns (fst (json_tuple_to_cols (\<lambda>s. Inl SyntaxError)
     [\<lparr>row_labels = [PInt 0],
       cols = [(PStr ''Id'', [PInt 7]),
               (PStr ''Ref'', [PDict [(PStr ''name'', PStr ''Discount''), (PStr ''value'', PInt 10)]])]\<rparr>]
     0 ''Ref'' default_col_config) ! 0))
 \<and> PStr ''Name'' \<in> set (columns (fst (json_tuple_to_cols (\<lambda>s. Inl SyntaxError)
     [\<lparr>row_labels = [PInt 0],
       cols = [(PStr ''Id'', [PInt 7]),
               (PStr ''Ref'', [PDict [(PStr ''name'', PStr ''Discount''), (PStr ''value'', PInt 10)]])]\<rparr>]
     0 ''Ref'' default_col_config) ! 0))
 \<and> take 1 (fst (rename
     [\<lparr>row_labels = [PInt 0],
       cols = [(PStr ''Id'', [PInt 7]),
               (PStr ''Ref'', [PDict [(PStr ''name'', PStr ''Discount''), (PStr ''value'', PInt 10)]])]\<rparr>]
     0 (Target_List [''Id''])))
   = [\<lparr>row_labels = [PInt 0],
       cols = [(PStr ''Id'', [PInt 7]),
               (PStr ''Ref'', [PDict [(PStr ''name'', PStr ''Discount''), (PStr ''value'', PInt 10)]])]\<rparr>]"
  using caller_table_after_call
          [where df = 0 and le = "\<lambda>s. Inl SyntaxError" and c = "''Ref''"
             and cfg = default_col_config and t = "Target_List [''Id'']"
             and ntr = "\<lambda>v sep (m::nat). Inr v" and ml = 1 and red = None
             and h = "[\<lparr>row_labels = [PInt 0],
       cols = [(PStr ''Id'', [PInt 7]),
               (PStr ''Ref'', [PDict [(PStr ''name'', PStr ''Discount''), (PStr ''value'', PInt 10)]])]\<rparr>]"]
  unfolding json_tuple_to_cols_example
  by (simp add: default_col_config_def columns_def)

text \<open>
  The claim as the specification states it, that the caller's table has the same
  columns after any call as before, is false for \<open>json_tuple_to_cols\<close>: the caller's
  table with the columns \<open>Id\<close> and \<open>Ref\<close> has the columns \<open>Id\<close>, \<open>Ref\<close>, \<open>Name\<close> and
  \<open>Value\<close> after the call.
\<close>

theorem json_tuple_to_cols_changes_caller_table:
  "columns (fst (json_tuple_to_cols (\<lambda>s. Inl SyntaxError)
     [\<lparr>row_labels = [PInt 0],
       cols = [(PStr ''Id'', [PInt 7]),
               (PStr ''Ref'', [PDict [(PStr ''name'', PStr ''Discount''), (PStr ''value'', PInt 10)]])]\<rparr>]
     0 ''Ref'' default_col_config) ! 0)
   = [PStr ''Id'', PStr ''Ref'', PStr ''Name'', PStr ''Value'']
 \<and> fst (json_tuple_to_cols (\<lambda>s. Inl SyntaxError)
     [\<lparr>row_labels = [PInt 0],
       cols = [(PStr ''Id'', [PInt 7]),
               (PStr ''Ref'', [PDict [(PStr ''name'', PStr ''Discount''), (PStr ''value'', PInt 10)]])]\<rparr>]
     0 ''Ref'' default_col_config) ! 0
   \<noteq> \<lparr>row_labels = [PInt 0],
       cols = [(PStr ''Id'', [PInt 7]),
               (PStr ''Ref'', [PDict [(PStr ''name'', PStr ''Discount''), (PStr ''value'', PInt 10)]])]\<rparr>"
  unfolding json_tuple_to_cols_example
  by (simp add: columns_def)

section \<open>Properties of the column renamer\<close>

lemma filter_label_distinct:
  "distinct (map fst cs) \<Longrightarrow> (l, vs) \<in> set cs \<Longrightarrow> filter (\<lambda>p. fst p = l) cs = [(l, vs)]"
proof (induction cs)
  case Nil
  then show ?case by simp
next
  case (Cons c cs)
  show ?case
  proof (cases "fst c = l")
    case True
    then have "l \<notin> fst ` set cs" using Cons.prems(1) by auto
    then have "filter (\<lambda>p. fst p = l) cs = []" by (auto simp: filter_empty_conv)
    moreover have "c = (l, vs)" using True Cons.prems \<open>l \<notin> fst ` set cs\<close> by (cases c) force
    ultimately show ?thesis by simp
  next
    case False
    then show ?thesis using Cons by auto
  qed
qed

lemma getitem_distinct:
  "distinct (columns d) \<Longrightarrow> (l, vs) \<in> set (cols d) \<Longrightarrow> getitem d l = Inr vs"
  by (simp add: getitem_def columns_def filter_label_distinct)

lemma getitem_list_distinct:
  assumes "distinct (columns d)" and "set labels \<subseteq> set (columns d)"
  shows "\<exists>res. getitem_list d labels = Inr res \<and> row_labels res = row_labels d
           \<and> columns res = labels
           \<and> map (\<lambda>p. Inr (snd p)) (cols res) = map (getitem d) labels"
proof -
  have sel: "map fst (concat (map (\<lambda>l. filter (\<lambda>p. fst p = l) (cols d)) ls)) = ls
           \<and> map (\<lambda>p. Inr (snd p)) (concat (map (\<lambda>l. filter (\<lambda>p. fst p = l) (cols d)) ls))
               = map (getitem d) ls"
    if "set ls \<subseteq> set (columns d)" for ls
    using that
  proof (induction ls)
    case Nil
    then show ?case by simp
  next
    case (Cons l ls)
    then obtain vs where "(l, vs) \<in> set (cols d)" by (auto simp: columns_def)
    then have "filter (\<lambda>p. fst p = l) (cols d) = [(l, vs)]" and "getitem d l = Inr vs"
      using assms(1) by (simp_all add: filter_label_distinct getitem_distinct columns_def)
    then show ?case using Cons by simp
  qed
  have "list_all (\<lambda>l. l \<in> set (columns d)) labels"
    using assms(2) by (auto simp: list_all_iff)
  then show ?thesis using sel [OF assms(2)] by (simp add: getitem_list_def columns_def)
qed

lemma select_all_distinct:
  "distinct (map fst cs) \<Longrightarrow> concat (map (\<lambda>l. filter (\<lambda>p. fst p = l) cs) (map fst cs)) = cs"
proof (induction cs)
  case Nil
  then show ?case by simp
next
  case (Cons c cs)
  have notin: "fst c \<notin> fst ` set cs" using Cons.prems by simp
  have head: "filter (\<lambda>p. fst p = fst c) cs = []"
  proof (rule filter_False, rule ballI)
    fix x assume "x \<in> set cs"
    then have "fst x \<in> fst ` set cs" by (rule imageI)
    with notin show "\<not> fst x = fst c" by metis
  qed
  have tail: "map (\<lambda>l. filter (\<lambda>p. fst p = l) (c # cs)) (map fst cs)
      = map (\<lambda>l. filter (\<lambda>p. fst p = l) cs) (map fst cs)"
  proof (rule map_cong [OF refl])
    fix l assume "l \<in> set (map fst cs)"
    then have "fst c \<noteq> l" using notin by auto
    then show "filter (\<lambda>p. fst p = l) (c # cs) = filter (\<lambda>p. fst p = l) cs" by simp
  qed
  have ih: "concat (map (\<lambda>l. filter (\<lambda>p. fst p = l) cs) (map fst cs)) = cs"
    using Cons by simp
  have "concat (map (\<lambda>l. filter (\<lambda>p. fst p = l) (c # cs)) (map fst (c # cs)))
      = filter (\<lambda>p. fst p = fst c) (c # cs)
        @ concat (map (\<lambda>l. filter (\<lambda>p. fst p = l) (c # cs)) (map fst cs))"
    by simp
  also have "\<dots> = [c] @ cs"
    unfolding tail ih by (simp add: head)
  finally show ?case by simp
qed

text \<open>
  C6, as the code has it. For a table with unique column labels and a list of names
  of its columns, \<open>rename\<close> returns a new table whose columns are the list's elements
  in the list's order, each with the values of the column it names. When no name
  stands twice in the list, \<open>rename\<close> with the same list on the result returns a
  table equal to the result.
\<close>

theorem rename_list:
  assumes "df < length h" and "distinct (columns (h ! df))"
    and "set (map PStr names) \<subseteq> set (columns (h ! df))"
  shows "\<exists>res. rename h df (Target_List names) = (h @ [res], Inr (length h))
           \<and> columns res = map PStr names
           \<and> row_labels res = row_labels (h ! df)
           \<and> map (\<lambda>p. Inr (snd p)) (cols res) = map (\<lambda>n. getitem (h ! df) (PStr n)) names
           \<and> (distinct names \<longrightarrow>
                rename (h @ [res]) (length h) (Target_List names)
                  = (h @ [res, res], Inr (Suc (length h))))"
proof -
  from getitem_list_distinct [OF assms(2,3)] obtain res where
    res: "getitem_list (h ! df) (map PStr names) = Inr res" "row_labels res = row_labels (h ! df)"
      "columns res = map PStr names"
      "map (\<lambda>p. Inr (snd p)) (cols res) = map (getitem (h ! df)) (map PStr names)"
    by blast
  have first: "rename h df (Target_List names) = (h @ [res], Inr (length h))"
    using res(1) by (simp add: rename_def new_table_def)
  have again: "rename (h @ [res]) (length h) (Target_List names) = (h @ [res, res], Inr (Suc (length h)))"
    if "distinct names"
  proof -
    have d: "distinct (map fst (cols res))"
      using that res(3) by (simp add: columns_def distinct_map inj_on_def)
    have eq: "map fst (cols res) = map PStr names"
      using res(3) by (simp add: columns_def)
    have "concat (map (\<lambda>l. filter (\<lambda>p. fst p = l) (cols res)) (map PStr names)) = cols res"
      using select_all_distinct [OF d] unfolding eq .
    moreover have "list_all (\<lambda>l. l \<in> set (columns res)) (map PStr names)"
      unfolding res(3) by (simp add: list_all_iff)
    ultimately have "getitem_list res (map PStr names) = Inr (res\<lparr>cols := cols res\<rparr>)"
      unfolding getitem_list_def by simp
    then show ?thesis by (simp add: rename_def new_table_def)
  qed
  show ?thesis using first res again by (auto simp: comp_def)
qed

theorem rename_list_witness:
  "(0::nat) < length [\<lparr>row_labels = [PInt 1037],
       cols = [(PStr ''Line'', [PList [PInt 1, PInt 2]]), (PStr ''Customer'', [PStr ''Bob''])]\<rparr>]
 \<and> distinct (columns \<lparr>row_labels = [PInt 1037],
       cols = [(PStr ''Line'', [PList [PInt 1, PInt 2]]), (PStr ''Customer'', [PStr ''Bob''])]\<rparr>)
 \<and> set (map PStr [''Customer'', ''Line'']) \<subseteq> set (columns \<lparr>row_labels = [PInt 1037],
       cols = [(PStr ''Line'', [PList [PInt 1, PInt 2]]), (PStr ''Customer'', [PStr ''Bob''])]\<rparr>)
 \<and> rename [\<lparr>row_labels = [PInt 1037],
       cols = [(PStr ''Line'', [PList [PInt 1, PInt 2]]), (PStr ''Customer'', [PStr ''Bob''])]\<rparr>] 0 (Target_List [''Customer'', ''Line''])
     = ([\<lparr>row_labels = [PInt 1037],
       cols = [(PStr ''Line'', [PList [PInt 1, PInt 2]]), (PStr ''Customer'', [PStr ''Bob''])]\<rparr>,
     \<lparr>row_labels = [PInt 1037],
       cols = [(PStr ''Customer'', [PStr ''Bob'']), (PStr ''Line'', [PList [PInt 1, PInt 2]])]\<rparr>], Inr 1)
 \<and> rename [\<lparr>row_labels = [PInt 1037],
       cols = [(PStr ''Line'', [PList [PInt 1, PInt 2]]), (PStr ''Customer'', [PStr ''Bob''])]\<rparr>,
     \<lparr>row_labels = [PInt 1037],
       cols = [(PStr ''Customer'', [PStr ''Bob'']), (PStr ''Line'', [PList [PInt 1, PInt 2]])]\<rparr>] 1 (Target_List [''Customer'', ''Line''])
     = ([\<lparr>row_labels = [PInt 1037],
       cols = [(PStr ''Line'', [PList [PInt 1, PInt 2]]), (PStr ''Customer'', [PStr ''Bob''])]\<rparr>,
     \<lparr>row_labels = [PInt 1037],
       cols = [(PStr ''Customer'', [PStr ''Bob'']), (PStr ''Line'', [PList [PInt 1, PInt 2]])]\<rparr>, \<lparr>row_labels = [PInt 1037],
       cols = [(PStr ''Customer'', [PStr ''Bob'']), (PStr ''Line'', [PList [PInt 1, PInt 2]])]\<rparr>], Inr 2)"
  using rename_list
          [where h = "[\<lparr>row_labels = [PInt 1037],
       cols = [(PStr ''Line'', [PList [PInt 1, PInt 2]]), (PStr ''Customer'', [PStr ''Bob''])]\<rparr>]" and df = 0 and names = "[''Customer'', ''Line'']"]
  by (simp add: rename_def getitem_list_def columns_def new_table_def)

text \<open>
  The claim as the specification states it is false for a list that names a column
  twice: the first call returns a table with two columns \<open>Customer\<close>, and the second
  call, on that table, returns one with four.
\<close>

theorem rename_list_repeated_name:
  "rename [\<lparr>row_labels = [PInt 1037],
       cols = [(PStr ''Line'', [PList [PInt 1, PInt 2]]), (PStr ''Customer'', [PStr ''Bob''])]\<rparr>] 0 (Target_List [''Customer'', ''Customer''])
     = ([\<lparr>row_labels = [PInt 1037],
       cols = [(PStr ''Line'', [PList [PInt 1, PInt 2]]), (PStr ''Customer'', [PStr ''Bob''])]\<rparr>,
     \<lparr>row_labels = [PInt 1037],
       cols = [(PStr ''Customer'', [PStr ''Bob'']), (PStr ''Customer'', [PStr ''Bob''])]\<rparr>], Inr 1)
 \<and> rename [\<lparr>row_labels = [PInt 1037],
       cols = [(PStr ''Line'', [PList [PInt 1, PInt 2]]), (PStr ''Customer'', [PStr ''Bob''])]\<rparr>,
     \<lparr>row_labels = [PInt 1037],
       cols = [(PStr ''Customer'', [PStr ''Bob'']), (PStr ''Customer'', [PStr ''Bob''])]\<rparr>] 1 (Target_List [''Customer'', ''Customer''])
     = ([\<lparr>row_labels = [PInt 1037],
       cols = [(PStr ''Line'', [PList [PInt 1, PInt 2]]), (PStr ''Customer'', [PStr ''Bob''])]\<rparr>,
     \<lparr>row_labels = [PInt 1037],
       cols = [(PStr ''Customer'', [PStr ''Bob'']), (PStr ''Customer'', [PStr ''Bob''])]\<rparr>, \<lparr>row_labels = [PInt 1037],
       cols = [(PStr ''Customer'', [PStr ''Bob'']), (PStr ''Customer'', [PStr ''Bob'']),
               (PStr ''Customer'', [PStr ''Bob'']), (PStr ''Customer'', [PStr ''Bob''])]\<rparr>], Inr 2)
 \<and> \<lparr>row_labels = [PInt 1037],
       cols = [(PStr ''Customer'', [PStr ''Bob'']), (PStr ''Customer'', [PStr ''Bob'']),
               (PStr ''Customer'', [PStr ''Bob'']), (PStr ''Customer'', [PStr ''Bob''])]\<rparr> \<noteq> \<lparr>row_labels = [PInt 1037],
       cols = [(PStr ''Customer'', [PStr ''Bob'']), (PStr ''Customer'', [PStr ''Bob''])]\<rparr>"
  by (simp add: rename_def getitem_list_def columns_def new_table_def)

text \<open>
  C5. For a table with unique column labels and a dict from old names to new ones,
  \<open>rename\<close> returns a new table with one column for every key of the dict that is a
  column label, in the order of the dict's keys, under the name the dict gives it and
  with the values of the column the key names. Columns that are no key are not in
  the result; keys that are no column are passed over, and the call returns.
\<close>

theorem rename_mapping:
  assumes "df < length h" and "distinct (columns (h ! df))" and "distinct (map fst mapping)"
  shows "\<exists>res. rename h df (Target_Dict mapping) = (h @ [res], Inr (length h))
           \<and> row_labels res = row_labels (h ! df)
           \<and> columns res
               = map (\<lambda>p. PStr (snd p))
                   (filter (\<lambda>p. PStr (fst p) \<in> set (columns (h ! df))) mapping)
           \<and> map (\<lambda>p. Inr (snd p)) (cols res)
               = map (\<lambda>p. getitem (h ! df) (PStr (fst p)))
                   (filter (\<lambda>p. PStr (fst p) \<in> set (columns (h ! df))) mapping)"
proof -
  let ?kept = "filter (\<lambda>p. PStr (fst p) \<in> set (columns (h ! df))) mapping"
  have "distinct (map (\<lambda>p. PStr (fst p)) mapping)"
    using assms(3) by (simp add: distinct_map inj_on_def)
  then have names: "index_intersection (map (\<lambda>p. PStr (fst p)) mapping) (columns (h ! df))
             = Inr (map (\<lambda>p. PStr (fst p)) ?kept)"
    using assms(2) by (simp add: index_intersection_def filter_map comp_def)
  have "set (map (\<lambda>p. PStr (fst p)) ?kept) \<subseteq> set (columns (h ! df))" by auto
  from getitem_list_distinct [OF assms(2) this] obtain sel where
    sel: "getitem_list (h ! df) (map (\<lambda>p. PStr (fst p)) ?kept) = Inr sel"
      "row_labels sel = row_labels (h ! df)"
      "columns sel = map (\<lambda>p. PStr (fst p)) ?kept"
      "map (\<lambda>p. Inr (snd p)) (cols sel) = map (getitem (h ! df)) (map (\<lambda>p. PStr (fst p)) ?kept)"
    by blast
  have run: "rename h df (Target_Dict mapping) = (h @ [rename_columns sel mapping], Inr (length h))"
    using sel(1) names by (simp add: rename_def new_table_def)
  have lab: "rename_label mapping (PStr (fst p)) = PStr (snd p)" if "p \<in> set mapping" for p
  proof -
    have "map_of mapping (fst p) = Some (snd p)"
      using that assms(3) by (intro map_of_is_SomeI) auto
    then show ?thesis by (simp add: rename_label_def)
  qed
  have "columns (rename_columns sel mapping) = map (rename_label mapping) (columns sel)"
    by (simp add: rename_columns_def columns_def comp_def)
  also have "\<dots> = map (\<lambda>p. PStr (snd p)) ?kept"
    using lab by (simp add: sel(3) comp_def)
  finally have cols: "columns (rename_columns sel mapping) = map (\<lambda>p. PStr (snd p)) ?kept" .
  have vals: "map (\<lambda>p. Inr (snd p)) (cols (rename_columns sel mapping))
            = map (\<lambda>p. getitem (h ! df) (PStr (fst p))) ?kept"
    using sel(4) by (simp add: rename_columns_def comp_def)
  show ?thesis using run cols vals sel(2) by (simp add: rename_columns_def)
qed


theorem rename_mapping_witness:
  "(0::nat) < length [\<lparr>row_labels = [PInt 1037],
       cols = [(PStr ''Line'', [PList [PInt 1, PInt 2]]), (PStr ''Customer'', [PStr ''Bob''])]\<rparr>]
 \<and> distinct (columns \<lparr>row_labels = [PInt 1037],
       cols = [(PStr ''Line'', [PList [PInt 1, PInt 2]]), (PStr ''Customer'', [PStr ''Bob''])]\<rparr>)
 \<and> distinct (map fst [(''Customer'', ''Client''), (''Zip'', ''Z''), (''Line'', ''Items'')])
 \<and> rename [\<lparr>row_labels = [PInt 1037],
       cols = [(PStr ''Line'', [PList [PInt 1, PInt 2]]), (PStr ''Customer'', [PStr ''Bob''])]\<rparr>] 0 (Target_Dict [(''Customer'', ''Client''), (''Zip'', ''Z''), (''Line'', ''Items'')])
     = ([\<lparr>row_labels = [PInt 1037],
       cols = [(PStr ''Line'', [PList [PInt 1, PInt 2]]), (PStr ''Customer'', [PStr ''Bob''])]\<rparr>,
     \<lparr>row_labels = [PInt 1037],
       cols = [(PStr ''Client'', [PStr ''Bob'']), (PStr ''Items'', [PList [PInt 1, PInt 2]])]\<rparr>], Inr 1)"
  using rename_mapping
          [where h = "[\<lparr>row_labels = [PInt 1037],
       cols = [(PStr ''Line'', [PList [PInt 1, PInt 2]]), (PStr ''Customer'', [PStr ''Bob''])]\<rparr>]" and df = 0
             and mapping = "[(''Customer'', ''Client''), (''Zip'', ''Z''), (''Line'', ''Items'')]"]
  by (simp add: rename_def getitem_list_def columns_def new_table_def index_intersection_def
        rename_columns_def rename_label_def)

section \<open>Properties of the tuple expander\<close>

lemma series_apply_all:
  assumes "list_all (\<lambda>y. \<exists>v. f y = Inr v) ys"
  shows "\<exists>vs. series_apply f ys = Inr vs \<and> length vs = length ys
           \<and> (\<forall>i < length ys. f (ys ! i) = Inr (vs ! i))"
  using assms
proof (induction ys)
  case Nil
  then show ?case by simp
next
  case (Cons y ys)
  then obtain v vs where v: "f y = Inr v" and vs: "series_apply f ys = Inr vs"
    "length vs = length ys" "\<forall>i < length ys. f (ys ! i) = Inr (vs ! i)"
    by auto
  have "\<forall>i < length (y # ys). f ((y # ys) ! i) = Inr ((v # vs) ! i)"
    using v vs(3) by (auto simp: nth_Cons split: nat.splits)
  then show ?case using v vs by simp
qed

lemma filter_setitem_other:
  "l' \<noteq> l \<Longrightarrow> filter (\<lambda>p. fst p = l') (map (\<lambda>p. if fst p = l then (l, vs) else p) cs)
     = filter (\<lambda>p. fst p = l') cs"
  by (induction cs) auto

lemma getitem_setitem_other: "l' \<noteq> l \<Longrightarrow> getitem (setitem d l vs) l' = getitem d l'"
  by (simp add: getitem_def setitem_def filter_setitem_other)

lemma filter_setitem_same:
  "distinct (map fst cs) \<Longrightarrow> l \<in> fst ` set cs \<Longrightarrow>
     filter (\<lambda>p. fst p = l) (map (\<lambda>p. if fst p = l then (l, vs) else p) cs) = [(l, vs)]"
proof (induction cs)
  case Nil
  then show ?case by simp
next
  case (Cons c cs)
  show ?case
  proof (cases "fst c = l")
    case True
    then have "l \<notin> fst ` set cs" using Cons.prems(1) by auto
    then have "filter (\<lambda>p. fst p = l) (map (\<lambda>p. if fst p = l then (l, vs) else p) cs) = []"
      by (induction cs) auto
    then show ?thesis using True by simp
  next
    case False
    then show ?thesis using Cons by auto
  qed
qed

lemma getitem_setitem_same:
  assumes "distinct (columns d)"
  shows "getitem (setitem d l vs) l = Inr vs"
proof (cases "l \<in> set (columns d)")
  case True
  then show ?thesis
    using assms filter_setitem_same [of "cols d" l vs]
    by (simp add: getitem_def setitem_def columns_def)
next
  case False
  then have "filter (\<lambda>p. fst p = l) (cols d) = []"
    by (auto simp: filter_empty_conv columns_def)
  then show ?thesis using False by (simp add: getitem_def setitem_def)
qed

lemma setitem_distinct: "distinct (columns d) \<Longrightarrow> distinct (columns (setitem d l vs))"
  by (simp add: setitem_columns)

lemma getitem_drop_other:
  "drop_column d l = Inr res \<Longrightarrow> l' \<noteq> l \<Longrightarrow> getitem res l' = getitem d l'"
proof -
  assume a: "drop_column d l = Inr res" and b: "l' \<noteq> l"
  have "filter (\<lambda>p. fst p = l') (filter (\<lambda>p. fst p \<noteq> l) cs) = filter (\<lambda>p. fst p = l') cs"
    for cs :: "(pyval \<times> pyval list) list"
    using b by (induction cs) auto
  then show ?thesis using a by (auto simp: drop_column_def getitem_def split: if_splits)
qed

lemma getitem_column: "getitem d l = Inr vs \<Longrightarrow> l \<in> set (columns d)"
  by (auto simp: getitem_def columns_def split: list.splits)
     (metis (mono_tags, lifting) filter_eq_ConsD fst_conv image_eqI in_set_conv_decomp)

text \<open>
  C9. Take a table with unique column labels, a source column, a configuration
  whose key column, value column and source column have three different names and
  whose lookup keys are \<open>name\<close> and \<open>value\<close>, and a row whose source cell is a dict
  with \<open>"name": "Discount"\<close> and \<open>"value": 10\<close>. If \<open>get_value\<close> returns for every cell
  of the source column (an exception in any row ends the call), then
  \<open>json_tuple_to_cols\<close> returns a table in which that row has \<open>"Discount"\<close> in the key
  column and \<open>10\<close> in the value column, and which has no column with the source
  column's label.
\<close>

theorem json_tuple_to_cols_discount:
  assumes ref: "df < length h"
    and wf: "distinct (columns (h ! df))"
    and src: "getitem (h ! df) (PStr c) = Inr cells"
    and names: "key_prop (cfg_cols cfg) \<noteq> value_prop (cfg_cols cfg)"
      "key_prop (cfg_cols cfg) \<noteq> c" "value_prop (cfg_cols cfg) \<noteq> c"
    and lookup: "look_up cfg = \<lparr>key_prop = ''name'', value_prop = ''value''\<rparr>"
    and row: "i < length cells" "cells ! i = PDict cell"
      "map_of cell (PStr ''name'') = Some (PStr ''Discount'')"
      "map_of cell (PStr ''value'') = Some (PInt 10)"
    and ok: "list_all (\<lambda>y. \<exists>v. get_value le y ''name'' = Inr v) cells"
      "list_all (\<lambda>y. \<exists>v. get_value le y ''value'' = Inr v) cells"
  shows "\<exists>h' keys vals.
           json_tuple_to_cols le h df c cfg = (h', Inr (length h))
         \<and> getitem (h' ! length h) (PStr (key_prop (cfg_cols cfg))) = Inr keys
         \<and> keys ! i = PStr ''Discount''
         \<and> getitem (h' ! length h) (PStr (value_prop (cfg_cols cfg))) = Inr vals
         \<and> vals ! i = PInt 10
         \<and> PStr c \<notin> set (columns (h' ! length h))"
proof -
  let ?K = "PStr (key_prop (cfg_cols cfg))" and ?V = "PStr (value_prop (cfg_cols cfg))"
  let ?d = "h ! df"
  from series_apply_all [OF ok(1)] obtain keys where
    keys: "series_apply (\<lambda>y. get_value le y ''name'') cells = Inr keys"
      "\<forall>j < length cells. get_value le (cells ! j) ''name'' = Inr (keys ! j)"
    by blast
  from series_apply_all [OF ok(2)] obtain vals where
    vals: "series_apply (\<lambda>y. get_value le y ''value'') cells = Inr vals"
      "\<forall>j < length cells. get_value le (cells ! j) ''value'' = Inr (vals ! j)"
    by blast
  let ?d1 = "setitem ?d ?K keys"
  let ?d2 = "setitem ?d1 ?V vals"
  have src1: "getitem ?d1 (PStr c) = Inr cells"
    using names(2) src by (simp add: getitem_setitem_other)
  have "PStr c \<in> set (columns ?d2)"
    using getitem_column [OF src] by (simp add: setitem_columns)
  then obtain res where res: "drop_column ?d2 (PStr c) = Inr res"
    by (simp add: drop_column_def)
  have run: "json_tuple_to_cols le h df c cfg = (h[df := ?d2] @ [res], Inr (length h))"
    using ref src keys(1) src1 vals(1) res lookup
    by (simp add: json_tuple_to_cols_def new_table_def)
  have at: "(h[df := ?d2] @ [res]) ! length h = res" by (simp add: nth_append)
  have d1: "distinct (columns ?d1)" using wf by (rule setitem_distinct)
  have k: "getitem res ?K = Inr keys"
    using getitem_drop_other [OF res, of ?K] names
    by (simp add: getitem_setitem_other getitem_setitem_same [OF wf])
  have v: "getitem res ?V = Inr vals"
    using getitem_drop_other [OF res, of ?V] names
    by (simp add: getitem_setitem_same [OF d1])
  have "get_value le (cells ! i) ''name'' = Inr (PStr ''Discount'')"
    and "get_value le (cells ! i) ''value'' = Inr (PInt 10)"
    using row by (simp_all add: get_value_def decode_str_def dict_get_def)
  then have ki: "keys ! i = PStr ''Discount''" and vi: "vals ! i = PInt 10"
    using keys(2) vals(2) row(1) by auto
  have "PStr c \<notin> set (columns res)"
    using drop_column_columns [OF res] by simp
  then show ?thesis using run at k v ki vi by simp
qed


theorem json_tuple_to_cols_discount_witness:
  "getitem (fst (json_tuple_to_cols (\<lambda>s. Inl SyntaxError) [\<lparr>row_labels = [PInt 0, PInt 1],
        cols = [(PStr ''Id'', [PInt 7, PInt 8]),
                (PStr ''Ref'', [PDict [(PStr ''name'', PStr ''Discount''), (PStr ''value'', PInt 10)],
                               PDict [(PStr ''value'', PInt 5), (PStr ''name'', PStr ''Tax'')]])]\<rparr>] 0 ''Ref''
       \<lparr>cfg_cols = \<lparr>key_prop = ''Discount Details'', value_prop = ''Discount %''\<rparr>,
        look_up = \<lparr>key_prop = ''name'', value_prop = ''value''\<rparr>\<rparr>) ! 1) (PStr ''Discount Details'')
     = Inr [PStr ''Discount'', PStr ''Tax'']
 \<and> getitem (fst (json_tuple_to_cols (\<lambda>s. Inl SyntaxError) [\<lparr>row_labels = [PInt 0, PInt 1],
        cols = [(PStr ''Id'', [PInt 7, PInt 8]),
                (PStr ''Ref'', [PDict [(PStr ''name'', PStr ''Discount''), (PStr ''value'', PInt 10)],
                               PDict [(PStr ''value'', PInt 5), (PStr ''name'', PStr ''Tax'')]])]\<rparr>] 0 ''Ref''
       \<lparr>cfg_cols = \<lparr>key_prop = ''Discount Details'', value_prop = ''Discount %''\<rparr>,
        look_up = \<lparr>key_prop = ''name'', value_prop = ''value''\<rparr>\<rparr>) ! 1) (PStr ''Discount %'')
     = Inr [PInt 10, PInt 5]
 \<and> columns (fst (json_tuple_to_cols (\<lambda>s. Inl SyntaxError) [\<lparr>row_labels = [PInt 0, PInt 1],
        cols = [(PStr ''Id'', [PInt 7, PInt 8]),
                (PStr ''Ref'', [PDict [(PStr ''name'', PStr ''Discount''), (PStr ''value'', PInt 10)],
                               PDict [(PStr ''value'', PInt 5), (PStr ''name'', PStr ''Tax'')]])]\<rparr>] 0 ''Ref''
       \<lparr>cfg_cols = \<lparr>key_prop = ''Discount Details'', value_prop = ''Discount %''\<rparr>,
        look_up = \<lparr>key_prop = ''name'', value_prop = ''value''\<rparr>\<rparr>) ! 1)
     = [PStr ''Id'', PStr ''Discount Details'', PStr ''Discount %'']
 \<and> snd (json_tuple_to_cols (\<lambda>s. Inl SyntaxError) [\<lparr>row_labels = [PInt 0, PInt 1],
        cols = [(PStr ''Id'', [PInt 7, PInt 8]),
                (PStr ''Ref'', [PDict [(PStr ''name'', PStr ''Discount''), (PStr ''value'', PInt 10)],
                               PDict [(PStr ''value'', PInt 5), (PStr ''name'', PStr ''Tax'')]])]\<rparr>] 0 ''Ref''
       \<lparr>cfg_cols = \<lparr>key_prop = ''Discount Details'', value_prop = ''Discount %''\<rparr>,
        look_up = \<lparr>key_prop = ''name'', value_prop = ''value''\<rparr>\<rparr>) = Inr 1"
  using json_tuple_to_cols_discount
          [where h = "[\<lparr>row_labels = [PInt 0, PInt 1],
        cols = [(PStr ''Id'', [PInt 7, PInt 8]),
                (PStr ''Ref'', [PDict [(PStr ''name'', PStr ''Discount''), (PStr ''value'', PInt 10)],
                               PDict [(PStr ''value'', PInt 5), (PStr ''name'', PStr ''Tax'')]])]\<rparr>]" and df = 0 and c = "''Ref''" and i = 0
             and le = "\<lambda>s. Inl SyntaxError"
             and cfg = "\<lparr>cfg_cols = \<lparr>key_prop = ''Discount Details'', value_prop = ''Discount %''\<rparr>,
        look_up = \<lparr>key_prop = ''name'', value_prop = ''value''\<rparr>\<rparr>"
             and cells = "[PDict [(PStr ''name'', PStr ''Discount''), (PStr ''value'', PInt 10)],
                           PDict [(PStr ''value'', PInt 5), (PStr ''name'', PStr ''Tax'')]]"
             and cell = "[(PStr ''name'', PStr ''Discount''), (PStr ''value'', PInt 10)]"]
  by (simp add: json_tuple_to_cols_def getitem_def setitem_def columns_def get_value_def
        decode_str_def dict_get_def drop_column_def new_table_def)

section \<open>Properties of the column exploder\<close>









end
